theory Spec2Isabelle
  imports Main "HOL-Library.Sublist"
begin

section \<open>Values and exceptions of the Python runtime\<close>

text \<open>
  The script \<^verbatim>\<open>ccc_example.py\<close> works on the values that \<^verbatim>\<open>r.json()\<close> returns.
  A dict is an association list read with \<open>map_of\<close>. The script never computes with a
  number, it only tests one for truth; numbers are integers here, and a JSON number with a
  fraction has no counterpart.
\<close>

datatype json =
    JNull
  | JBool bool
  | JNum int
  | JStr string
  | JArr "json list"
  | JObj "(string \<times> json) list"

text \<open>What \<^verbatim>\<open>requests\<close> hands back for one request: status code, body text, and the
  body parsed as JSON (\<open>None\<close> when the text is not JSON).\<close>

record response =
  status_code :: nat
  r_text :: string
  json_body :: "json option"

text \<open>Every exception the modelled functions can raise. \<open>HTTPError\<close> keeps the
  response (\<^verbatim>\<open>e.response\<close>); \<open>Exception\<close> keeps its message.\<close>

datatype error =
    KeyError
  | IndexError
  | TypeError
  | AttributeError
  | UnboundLocalError
  | JSONDecodeError
  | HTTPError response
  | Exception string

definition bindE :: "error + 'a \<Rightarrow> ('a \<Rightarrow> error + 'b) \<Rightarrow> error + 'b" where
  "bindE m f = (case m of Inl e \<Rightarrow> Inl e | Inr x \<Rightarrow> f x)"

text \<open>\<^verbatim>\<open>not x\<close> is \<open>\<not> truthy x\<close>.\<close>

fun truthy :: "json \<Rightarrow> bool" where
  "truthy JNull = False"
| "truthy (JBool b) = b"
| "truthy (JNum i) = (i \<noteq> 0)"
| "truthy (JStr s) = (s \<noteq> [])"
| "truthy (JArr xs) = (xs \<noteq> [])"
| "truthy (JObj kvs) = (kvs \<noteq> [])"

text \<open>\<^verbatim>\<open>x["k"]\<close> with a string key.\<close>

fun py_getitem :: "json \<Rightarrow> string \<Rightarrow> error + json" where
  "py_getitem (JObj kvs) k = (case map_of kvs k of None \<Rightarrow> Inl KeyError | Some v \<Rightarrow> Inr v)"
| "py_getitem _ k = Inl TypeError"

text \<open>\<^verbatim>\<open>x[i]\<close> with the literal index 0 or 1. A dict from JSON has string keys only,
  so an integer key is never found.\<close>

fun py_index :: "json \<Rightarrow> nat \<Rightarrow> error + json" where
  "py_index (JArr xs) i = (if i < length xs then Inr (xs ! i) else Inl IndexError)"
| "py_index (JObj kvs) i = Inl KeyError"
| "py_index (JStr s) i = (if i < length s then Inr (JStr [s ! i]) else Inl IndexError)"
| "py_index _ i = Inl TypeError"

text \<open>\<^verbatim>\<open>x.get("k", d)\<close>: only a dict has the method.\<close>

fun py_get :: "json \<Rightarrow> string \<Rightarrow> json \<Rightarrow> error + json" where
  "py_get (JObj kvs) k d = Inr (case map_of kvs k of None \<Rightarrow> d | Some v \<Rightarrow> v)"
| "py_get _ k d = Inl AttributeError"

fun py_len :: "json \<Rightarrow> error + nat" where
  "py_len (JArr xs) = Inr (length xs)"
| "py_len (JObj kvs) = Inr (length (remdups (map fst kvs)))"
| "py_len (JStr s) = Inr (length s)"
| "py_len _ = Inl TypeError"

text \<open>\<^verbatim>\<open>sub in s\<close> on strings.\<close>

definition py_in :: "string \<Rightarrow> string \<Rightarrow> bool" where
  "py_in sub s = sublist sub s"

section \<open>The controller and the session\<close>

text \<open>
  What the script takes from outside: the base URL (\<^verbatim>\<open>os.environ["CCC_URL"]\<close>), the
  controller's answer to the \<open>n\<close>-th request of the run, and how an f-string renders a
  value that is not a \<^verbatim>\<open>str\<close>. The script is sequential, so what a controller does in one
  run is the sequence of its answers, and a statement about every \<open>env\<close> is a statement
  about every controller. Every request is answered: a connection that fails is not
  modelled, nor are the token of \<^verbatim>\<open>auth_session\<close> and the headers of the session, which
  no function below reads.
\<close>

record env =
  CCC_URL :: string
  reply :: "nat \<Rightarrow> response"
  render :: "json \<Rightarrow> string"

text \<open>Interpolation \<^verbatim>\<open>{v}\<close> in an f-string: a \<^verbatim>\<open>str\<close> goes in as it is.\<close>

definition py_str :: "env \<Rightarrow> json \<Rightarrow> string" where
  "py_str E v = (case v of JStr s \<Rightarrow> s | _ \<Rightarrow> render E v)"

text \<open>What the run does to the outside, in order.\<close>

datatype event =
    GET string
  | PUT string json
  | SLEEP nat

record world =
  sent :: nat
  log :: "event list"

definition s_get :: "env \<Rightarrow> string \<Rightarrow> world \<Rightarrow> response \<times> world" where
  "s_get E url w = (reply E (sent w), \<lparr>sent = Suc (sent w), log = log w @ [GET url]\<rparr>)"

definition s_put :: "env \<Rightarrow> string \<Rightarrow> json \<Rightarrow> world \<Rightarrow> response \<times> world" where
  "s_put E url body w = (reply E (sent w), \<lparr>sent = Suc (sent w), log = log w @ [PUT url body]\<rparr>)"

definition sleep :: "nat \<Rightarrow> world \<Rightarrow> world" where
  "sleep n w = \<lparr>sent = sent w, log = log w @ [SLEEP n]\<rparr>"

text \<open>\<^verbatim>\<open>r.raise_for_status()\<close>: status codes 400 to 599 raise.\<close>

definition raise_for_status :: "response \<Rightarrow> error + unit" where
  "raise_for_status r =
     (if 400 \<le> status_code r \<and> status_code r < 600 then Inl (HTTPError r) else Inr ())"

definition r_json :: "response \<Rightarrow> error + json" where
  "r_json r = (case json_body r of None \<Rightarrow> Inl JSONDecodeError | Some j \<Rightarrow> Inr j)"

text \<open>The three lines every GET of the script is followed by:
  \<^verbatim>\<open>r.raise_for_status(); if r.text == "": raise Exception(...); r.json()\<close>.\<close>

definition checked_json :: "response \<Rightarrow> error + json" where
  "checked_json r =
     bindE (raise_for_status r) (\<lambda>_.
       if r_text r = [] then Inl (Exception ''Empty Response from the server.'')
       else r_json r)"

section \<open>get_client_details\<close>

definition unable_parent :: error where
  "unable_parent = Exception ''Unable to get parent device UUID from client details''"

text \<open>The body of \<^verbatim>\<open>get_client_details\<close> after \<^verbatim>\<open>json_resp = r.json()\<close> (lines 81 to 94).
  The local \<^verbatim>\<open>parent_device_uuid\<close> is an option: \<open>None\<close> while it is unbound.\<close>

definition client_primary :: "json \<Rightarrow> error + json" where
  "client_primary json_resp =
     bindE (py_get json_resp ''detail'' (JObj [])) (\<lambda>d.
     bindE (py_get d ''connectedDevice'' (JObj [])) (\<lambda>c.
     bindE (py_index c 0) (\<lambda>e. py_getitem e ''id'')))"

definition client_fallback :: "json \<Rightarrow> error + json" where
  "client_fallback json_resp =
     (case
        bindE (py_get json_resp ''topology'' (JObj [])) (\<lambda>t.
        bindE (py_get t ''nodes'' (JObj [])) (\<lambda>nodes.
        bindE (py_len nodes) (\<lambda>l.
          if l \<le> 1 then Inl unable_parent
          else bindE (py_index nodes 1) (\<lambda>n1. py_get n1 ''id'' (JObj [])))))
      of Inl KeyError \<Rightarrow> Inl unable_parent
       | Inl IndexError \<Rightarrow> Inl unable_parent
       | Inl e \<Rightarrow> Inl e
       | Inr v \<Rightarrow> Inr v)"

definition client_of_json :: "json \<Rightarrow> error + (json \<times> json)" where
  "client_of_json json_resp =
     bindE (py_getitem json_resp ''detail'') (\<lambda>d.
     bindE (py_getitem d ''port'') (\<lambda>interface_name.
       case (case client_primary json_resp of
               Inl KeyError \<Rightarrow> Inr None
             | Inl e \<Rightarrow> Inl e
             | Inr v \<Rightarrow> Inr (Some v))
       of Inl e \<Rightarrow> Inl e
        | Inr None \<Rightarrow> Inl UnboundLocalError
        | Inr (Some parent_device_uuid) \<Rightarrow>
            if \<not> truthy parent_device_uuid
            then bindE (client_fallback json_resp) (\<lambda>p. Inr (interface_name, p))
            else Inr (interface_name, parent_device_uuid)))"

definition get_client_details ::
  "env \<Rightarrow> string \<Rightarrow> world \<Rightarrow> (error + (json \<times> json)) \<times> world" where
  "get_client_details E mac_address w =
     (let query = ''?macAddress='' @ mac_address;
          url = CCC_URL E @ ''/dna/intent/api/v1/client-detail'' @ query;
          (r, w') = s_get E url w
      in (bindE (checked_json r) client_of_json, w'))"

section \<open>get_interface_details\<close>

definition unable_interface :: error where
  "unable_interface = Exception ''Unable to locate interface details of either: UUID or status''"

definition interface_of_json :: "json \<Rightarrow> error + (json \<times> json)" where
  "interface_of_json json_resp =
     bindE (bindE (py_get json_resp ''response'' (JObj [])) (\<lambda>r. py_get r ''id'' (JObj [])))
       (\<lambda>interface_uuid.
     bindE (bindE (py_get json_resp ''response'' (JObj [])) (\<lambda>r. py_get r ''adminStatus'' (JObj [])))
       (\<lambda>current_interface_status.
       if \<not> truthy interface_uuid \<or> \<not> truthy current_interface_status
       then Inl unable_interface
       else Inr (interface_uuid, current_interface_status)))"

definition get_interface_details ::
  "env \<Rightarrow> json \<Rightarrow> json \<Rightarrow> world \<Rightarrow> (error + (json \<times> json)) \<times> world" where
  "get_interface_details E parent_device_uuid interface_name w =
     (let query = ''?name='' @ py_str E interface_name;
          url = CCC_URL E @ ''/dna/intent/api/v1/interface/network-device/''
                @ py_str E parent_device_uuid @ ''/interface-name'' @ query;
          (r, w') = s_get E url w
      in (bindE (checked_json r) interface_of_json, w'))"

section \<open>lookup_task and the poll loops\<close>

definition task_url :: "env \<Rightarrow> json \<Rightarrow> string" where
  "task_url E task_id = CCC_URL E @ ''/dna/intent/api/v1/tasks/'' @ py_str E task_id"

definition lookup_task :: "env \<Rightarrow> json \<Rightarrow> world \<Rightarrow> (error + json) \<times> world" where
  "lookup_task E task_id w =
     (let (r, w') = s_get E (task_url E task_id) w in (checked_json r, w'))"

text \<open>\<^verbatim>\<open>resp1["response"]["taskId"]\<close> and \<^verbatim>\<open>task_details["response"]["status"]\<close>.\<close>

definition task_id_of :: "json \<Rightarrow> error + json" where
  "task_id_of resp1 = bindE (py_getitem resp1 ''response'') (\<lambda>r. py_getitem r ''taskId'')"

definition task_status :: "json \<Rightarrow> error + json" where
  "task_status task_details =
     bindE (py_getitem task_details ''response'') (\<lambda>r. py_getitem r ''status'')"

definition task_failed :: error where
  "task_failed = Exception ''Interface update task failed''"

text \<open>
  The \<^verbatim>\<open>while True\<close> of the DOWN branch (lines 170 to 178). It has no bound, so the
  result is an option and \<open>None\<close> is the run that never leaves the loop. Its last
  \<^verbatim>\<open>elif\<close> tests \<^verbatim>\<open>!= "SUCCESS"\<close>; were that false the loop would go round again
  without sleeping.
\<close>

partial_function (option) await_task_down ::
  "env \<Rightarrow> json \<Rightarrow> world \<Rightarrow> ((error + unit) \<times> world) option" where
  "await_task_down E resp1 w =
     (case task_id_of resp1 of
        Inl e \<Rightarrow> Some (Inl e, w)
      | Inr task_id \<Rightarrow>
          (case lookup_task E task_id w of
             (Inl e, w') \<Rightarrow> Some (Inl e, w')
           | (Inr task_details, w') \<Rightarrow>
               (case task_status task_details of
                  Inl e \<Rightarrow> Some (Inl e, w')
                | Inr st \<Rightarrow>
                    if st = JStr ''PENDING'' then await_task_down E resp1 (sleep 1 w')
                    else if st = JStr ''SUCCESS'' then Some (Inr (), w')
                    else if st \<noteq> JStr ''SUCCESS'' then Some (Inl task_failed, w')
                    else await_task_down E resp1 w')))"

text \<open>The \<^verbatim>\<open>while True\<close> of the UP branch (lines 185 to 193), which ends in a plain
  \<^verbatim>\<open>else\<close>.\<close>

partial_function (option) await_task_up ::
  "env \<Rightarrow> json \<Rightarrow> world \<Rightarrow> ((error + unit) \<times> world) option" where
  "await_task_up E resp1 w =
     (case task_id_of resp1 of
        Inl e \<Rightarrow> Some (Inl e, w)
      | Inr task_id \<Rightarrow>
          (case lookup_task E task_id w of
             (Inl e, w') \<Rightarrow> Some (Inl e, w')
           | (Inr task_details, w') \<Rightarrow>
               (case task_status task_details of
                  Inl e \<Rightarrow> Some (Inl e, w')
                | Inr st \<Rightarrow>
                    if st = JStr ''PENDING'' then await_task_up E resp1 (sleep 1 w')
                    else if st = JStr ''SUCCESS'' then Some (Inr (), w')
                    else Some (Inl task_failed, w'))))"

section \<open>interface_shut_no_shut\<close>

definition admin :: "string \<Rightarrow> json" where
  "admin v = JObj [(''adminStatus'', JStr v)]"

definition interface_url :: "env \<Rightarrow> json \<Rightarrow> string \<Rightarrow> string" where
  "interface_url E interface_uuid mode =
     (let query = ''?deploymentMode='' @ mode
      in CCC_URL E @ ''/dna/intent/api/v1/interface/'' @ py_str E interface_uuid @ query)"

text \<open>Lines 165 to 169 and 180 to 184: the PUT whose answer must carry a task.\<close>

definition put_checked ::
  "env \<Rightarrow> string \<Rightarrow> json \<Rightarrow> world \<Rightarrow> (error + json) \<times> world" where
  "put_checked E url body w = (let (r1, w') = s_put E url body w in (checked_json r1, w'))"

text \<open>Lines 194 to 204: the restoring PUT inside \<^verbatim>\<open>try\<close>. Only the \<^verbatim>\<open>HTTPError\<close> of
  \<^verbatim>\<open>raise_for_status\<close> reaches the handler; the empty-body exception passes it.\<close>

definition restore_up :: "env \<Rightarrow> string \<Rightarrow> world \<Rightarrow> (error + unit) \<times> world" where
  "restore_up E url w =
     (let (r2, w') = s_put E url (admin ''UP'') w
      in (case raise_for_status r2 of
            Inl (HTTPError resp) \<Rightarrow>
              if py_in ''No change in setting'' (r_text resp) then Inr ()
              else Inl (HTTPError resp)
          | Inl e \<Rightarrow> Inl e
          | Inr _ \<Rightarrow>
              if r_text r2 = [] then Inl (Exception ''Empty Response from the server.'')
              else Inr (), w'))"

definition interface_shut_no_shut ::
  "env \<Rightarrow> json \<Rightarrow> json \<Rightarrow> string \<Rightarrow> world \<Rightarrow> ((error + unit) \<times> world) option" where
  "interface_shut_no_shut E interface_uuid current_interface_status mode w =
     (let url = interface_url E interface_uuid mode in
      if current_interface_status = JStr ''DOWN'' then
        (case put_checked E url (admin ''UP'') w of
           (Inl e, w1) \<Rightarrow> Some (Inl e, w1)
         | (Inr resp1, w1) \<Rightarrow> await_task_down E resp1 w1)
      else if current_interface_status = JStr ''UP'' then
        (case put_checked E url (admin ''DOWN'') w of
           (Inl e, w1) \<Rightarrow> Some (Inl e, w1)
         | (Inr resp1, w1) \<Rightarrow>
             (case await_task_up E resp1 w1 of
                None \<Rightarrow> None
              | Some (Inl e, w2) \<Rightarrow> Some (Inl e, w2)
              | Some (Inr _, w2) \<Rightarrow> Some (restore_up E url w2)))
      else Some (Inr (), w))"

section \<open>port_bounce\<close>

text \<open>The call of \<^verbatim>\<open>interface_shut_no_shut\<close> on lines 221 to 224 gives no \<^verbatim>\<open>mode\<close>,
  so the callee runs with its default \<^verbatim>\<open>"Deploy"\<close>.\<close>

definition port_bounce ::
  "env \<Rightarrow> string \<Rightarrow> string \<Rightarrow> world \<Rightarrow> ((error + unit) \<times> world) option" where
  "port_bounce E mac_address mode w =
     (case get_client_details E mac_address w of
        (Inl e, w1) \<Rightarrow> Some (Inl e, w1)
      | (Inr (interface_name, parent_device_uuid), w1) \<Rightarrow>
          (case get_interface_details E parent_device_uuid interface_name w1 of
             (Inl e, w2) \<Rightarrow> Some (Inl e, w2)
           | (Inr (interface_uuid, current_interface_status), w2) \<Rightarrow>
               interface_shut_no_shut E interface_uuid current_interface_status ''Deploy'' w2))"

section \<open>Observations of a run\<close>

text \<open>The controller answers a task lookup with status \<open>st\<close>: the answer passes the
  checks of \<^verbatim>\<open>lookup_task\<close> and \<^verbatim>\<open>task_details["response"]["status"]\<close> reads \<open>st\<close>.\<close>

definition task_answer :: "response \<Rightarrow> json \<Rightarrow> bool" where
  "task_answer r st = (case checked_json r of Inl e \<Rightarrow> False | Inr td \<Rightarrow> task_status td = Inr st)"

text \<open>From request \<open>n\<close> on, the controller answers with the statuses \<open>sts\<close>, one per
  request.\<close>

fun answers :: "env \<Rightarrow> nat \<Rightarrow> json list \<Rightarrow> bool" where
  "answers E n [] = True"
| "answers E n (st # sts) = (task_answer (reply E n) st \<and> answers E (Suc n) sts)"

text \<open>The events of a poll that sleeps \<open>k\<close> times: \<open>k\<close> lookups each followed by a
  one-second sleep, then the last lookup.\<close>

definition polls :: "env \<Rightarrow> json \<Rightarrow> nat \<Rightarrow> event list" where
  "polls E task_id k =
     concat (replicate k [GET (task_url E task_id), SLEEP 1]) @ [GET (task_url E task_id)]"


text \<open>The member \<open>k\<close> of a dict when it is there and not empty (truthy).\<close>

definition member :: "(string \<times> json) list \<Rightarrow> string \<Rightarrow> json option" where
  "member ms k = (case map_of ms k of None \<Rightarrow> None | Some v \<Rightarrow> if truthy v then Some v else None)"


section \<open>Controllers for concrete runs\<close>

definition json_reply :: "string \<Rightarrow> json \<Rightarrow> response" where
  "json_reply body j = \<lparr>status_code = 200, r_text = body, json_body = Some j\<rparr>"

definition status_reply :: "string \<Rightarrow> response" where
  \<open>status_reply st =
     json_reply (''{"response": {"status": "'' @ st @ ''"}}'')
       (JObj [(''response'', JObj [(''status'', JStr st)])])\<close>

definition accepted :: json where
  "accepted = JObj [(''response'', JObj [(''taskId'', JStr ''task-1'')])]"

definition accepted_reply :: response where
  \<open>accepted_reply = json_reply ''{"response": {"taskId": "task-1"}}'' accepted\<close>

definition interface_reply :: "string \<Rightarrow> response" where
  \<open>interface_reply st =
     json_reply (''{"response": {"id": "if-1", "adminStatus": "'' @ st @ ''"}}'')
       (JObj [(''response'', JObj [(''id'', JStr ''if-1''), (''adminStatus'', JStr st)])])\<close>

definition error_reply :: "nat \<Rightarrow> string \<Rightarrow> response" where
  "error_reply code body = \<lparr>status_code = code, r_text = body, json_body = None\<rparr>"

definition node :: "string \<Rightarrow> json" where
  "node i = JObj [(''id'', JStr i)]"

definition client_with_device :: response where
  \<open>client_with_device =
     json_reply ''{"detail": {"port": "GigabitEthernet1/0/3", "connectedDevice": [{"id": "dev-1"}]}, "topology": {"nodes": [{"id": "client-1"}, {"id": "switch-1"}]}}''
       (JObj [(''detail'', JObj [(''port'', JStr ''GigabitEthernet1/0/3''),
                                 (''connectedDevice'', JArr [node ''dev-1''])]),
              (''topology'', JObj [(''nodes'', JArr [node ''client-1'', node ''switch-1''])])])\<close>

definition client_no_device :: response where
  \<open>client_no_device =
     json_reply ''{"detail": {"port": "GigabitEthernet1/0/3"}, "topology": {"nodes": [{"id": "client-1"}, {"id": "switch-1"}]}}''
       (JObj [(''detail'', JObj [(''port'', JStr ''GigabitEthernet1/0/3'')]),
              (''topology'', JObj [(''nodes'', JArr [node ''client-1'', node ''switch-1''])])])\<close>

definition client_empty_device :: response where
  \<open>client_empty_device =
     json_reply ''{"detail": {"port": "GigabitEthernet1/0/3", "connectedDevice": []}, "topology": {"nodes": [{"id": "client-1"}, {"id": "switch-1"}]}}''
       (JObj [(''detail'', JObj [(''port'', JStr ''GigabitEthernet1/0/3''),
                                 (''connectedDevice'', JArr [])]),
              (''topology'', JObj [(''nodes'', JArr [node ''client-1'', node ''switch-1''])])])\<close>

definition client_alone :: response where
  \<open>client_alone =
     json_reply ''{"detail": {"port": "GigabitEthernet1/0/3"}, "topology": {"nodes": [{"id": "client-1"}]}}''
       (JObj [(''detail'', JObj [(''port'', JStr ''GigabitEthernet1/0/3'')]),
              (''topology'', JObj [(''nodes'', JArr [node ''client-1''])])])\<close>

definition interface_no_status :: response where
  \<open>interface_no_status =
     json_reply ''{"response": {"id": "if-1"}}'' (JObj [(''response'', JObj [(''id'', JStr ''if-1'')])])\<close>

definition demo_mac :: string where
  "demo_mac = ''00:A2:89:AA:AA:AA''"

definition no_change_reply :: response where
  \<open>no_change_reply = error_reply 400 ''{"response": {"detail": "No change in setting"}}''\<close>

definition refused_reply :: response where
  \<open>refused_reply = error_reply 500 ''{"response": {"detail": "Internal error"}}''\<close>

text \<open>A controller that answers the requests of a run from a list, and with 503 and an
  empty body once the list is used up.\<close>

definition scripted :: "response list \<Rightarrow> env" where
  "scripted rs =
     \<lparr>CCC_URL = ''https://ccc.example'',
      reply = (\<lambda>n. if n < length rs then rs ! n else error_reply 503 []),
      render = (\<lambda>v. [])\<rparr>"

definition w0 :: world where
  "w0 = \<lparr>sent = 0, log = []\<rparr>"

declare await_task_down.simps [code]
declare await_task_up.simps [code]

section \<open>The poll loops\<close>

lemma lookup_task_answer:
  assumes "task_answer (reply E (sent w)) st"
  shows "\<exists>td. lookup_task E tid w =
           (Inr td, \<lparr>sent = Suc (sent w), log = log w @ [GET (task_url E tid)]\<rparr>)
         \<and> task_status td = Inr st"
  using assms by (auto simp: task_answer_def lookup_task_def s_get_def split: sum.splits)

lemma down_step_pending:
  assumes "task_id_of resp1 = Inr tid" and "task_answer (reply E (sent w)) (JStr ''PENDING'')"
  shows "await_task_down E resp1 w =
         await_task_down E resp1
           \<lparr>sent = Suc (sent w), log = log w @ [GET (task_url E tid), SLEEP 1]\<rparr>"
proof -
  from lookup_task_answer [OF assms(2)] obtain td where
    td: "lookup_task E tid w = (Inr td, \<lparr>sent = Suc (sent w), log = log w @ [GET (task_url E tid)]\<rparr>)"
      "task_status td = Inr (JStr ''PENDING'')" by blast
  show ?thesis
    by (subst await_task_down.simps) (simp add: assms(1) td sleep_def)
qed

lemma down_step_final:
  assumes "task_id_of resp1 = Inr tid" and "task_answer (reply E (sent w)) st"
    and "st \<noteq> JStr ''PENDING''"
  shows "await_task_down E resp1 w =
         Some (if st = JStr ''SUCCESS'' then Inr () else Inl task_failed,
               \<lparr>sent = Suc (sent w), log = log w @ [GET (task_url E tid)]\<rparr>)"
proof -
  from lookup_task_answer [OF assms(2)] obtain td where
    td: "lookup_task E tid w = (Inr td, \<lparr>sent = Suc (sent w), log = log w @ [GET (task_url E tid)]\<rparr>)"
      "task_status td = Inr st" by blast
  show ?thesis
    by (subst await_task_down.simps) (simp add: assms(1,3) td)
qed

lemma down_pendings:
  assumes "task_id_of resp1 = Inr tid"
    and "answers E (sent w) (replicate k (JStr ''PENDING'') @ sts)"
  shows "await_task_down E resp1 w =
         await_task_down E resp1
           \<lparr>sent = sent w + k,
            log = log w @ concat (replicate k [GET (task_url E tid), SLEEP 1])\<rparr>
         \<and> answers E (sent w + k) sts"
  using assms(2)
proof (induction k arbitrary: w)
  case 0
  then show ?case by (cases w) simp
next
  case (Suc k)
  let ?w1 = "\<lparr>sent = Suc (sent w), log = log w @ [GET (task_url E tid), SLEEP 1]\<rparr>"
  from Suc.prems have p: "task_answer (reply E (sent w)) (JStr ''PENDING'')"
    and rest: "answers E (sent ?w1) (replicate k (JStr ''PENDING'') @ sts)" by simp_all
  from Suc.IH [OF rest] down_step_pending [OF assms(1) p]
  show ?case by simp
qed

lemma down_scenario:
  assumes "task_id_of resp1 = Inr tid"
    and "answers E (sent w) (replicate k (JStr ''PENDING'') @ [st])"
    and "st \<noteq> JStr ''PENDING''"
  shows "await_task_down E resp1 w =
         Some (if st = JStr ''SUCCESS'' then Inr () else Inl task_failed,
               \<lparr>sent = sent w + k + 1, log = log w @ polls E tid k\<rparr>)"
proof -
  let ?w1 = "\<lparr>sent = sent w + k, log = log w @ concat (replicate k [GET (task_url E tid), SLEEP 1])\<rparr>"
  from down_pendings [OF assms(1,2)] have
    a: "await_task_down E resp1 w = await_task_down E resp1 ?w1"
    and b: "task_answer (reply E (sent ?w1)) st" by simp_all
  from down_step_final [OF assms(1) b assms(3)] a show ?thesis
    by (simp add: polls_def)
qed




lemma down_imp_up:
  assumes "await_task_down E resp1 w = Some y"
  shows "await_task_up E resp1 w = Some y"
proof (rule await_task_down.raw_induct [where P = "\<lambda>E resp1 w y. await_task_up E resp1 w = Some y", OF _ assms])
  fix loop E resp1 w y
  assume IH: "\<And>E resp1 w y. loop E resp1 w = Some y \<Longrightarrow> await_task_up E resp1 w = Some y"
    and body: "(case task_id_of resp1 of Inl e \<Rightarrow> Some (Inl e, w)
      | Inr task_id \<Rightarrow>
          case lookup_task E task_id w of (Inl e, w') \<Rightarrow> Some (Inl e, w')
          | (Inr task_details, w') \<Rightarrow>
              case task_status task_details of Inl e \<Rightarrow> Some (Inl e, w')
              | Inr st \<Rightarrow>
                  if st = JStr ''PENDING''
                  then loop E resp1 (sleep 1 w')
                  else if st = JStr ''SUCCESS'' then Some (Inr (), w')
                       else if st \<noteq> JStr ''SUCCESS''
                            then Some (Inl task_failed, w')
                            else loop E resp1 w') = Some y"
  from body show "await_task_up E resp1 w = Some y"
    by (subst await_task_up.simps) (auto split: sum.splits prod.splits if_splits dest: IH)
qed

lemma up_imp_down:
  assumes "await_task_up E resp1 w = Some y"
  shows "await_task_down E resp1 w = Some y"
proof (rule await_task_up.raw_induct [where P = "\<lambda>E resp1 w y. await_task_down E resp1 w = Some y", OF _ assms])
  fix loop E resp1 w y
  assume IH: "\<And>E resp1 w y. loop E resp1 w = Some y \<Longrightarrow> await_task_down E resp1 w = Some y"
    and body: "(case task_id_of resp1 of Inl e \<Rightarrow> Some (Inl e, w)
      | Inr task_id \<Rightarrow>
          case lookup_task E task_id w of (Inl e, w') \<Rightarrow> Some (Inl e, w')
          | (Inr task_details, w') \<Rightarrow>
              case task_status task_details of Inl e \<Rightarrow> Some (Inl e, w')
              | Inr st \<Rightarrow>
                  if st = JStr ''PENDING''
                  then loop E resp1 (sleep 1 w')
                  else if st = JStr ''SUCCESS'' then Some (Inr (), w')
                       else Some (Inl task_failed, w')) = Some y"
  from body show "await_task_down E resp1 w = Some y"
    by (subst await_task_down.simps) (auto split: sum.splits prod.splits if_splits dest: IH)
qed

lemma await_task_up_eq: "await_task_up E resp1 w = await_task_down E resp1 w"
proof (cases "await_task_down E resp1 w")
  case None
  then show ?thesis
    by (cases "await_task_up E resp1 w") (auto dest: up_imp_down)
next
  case (Some y)
  then show ?thesis by (simp add: down_imp_up)
qed

section \<open>Facts about the requests of a run\<close>

lemma put_checked_eq:
  "put_checked E url body w =
     (checked_json (reply E (sent w)), \<lparr>sent = Suc (sent w), log = log w @ [PUT url body]\<rparr>)"
  by (simp add: put_checked_def s_put_def)



lemma restore_up_eq:
  "restore_up E url w =
     (let r2 = reply E (sent w) in
      if 400 \<le> status_code r2 \<and> status_code r2 < 600
      then (if py_in ''No change in setting'' (r_text r2) then Inr () else Inl (HTTPError r2))
      else if r_text r2 = [] then Inl (Exception ''Empty Response from the server.'')
      else Inr (),
      \<lparr>sent = Suc (sent w), log = log w @ [PUT url (admin ''UP'')]\<rparr>)"
  by (simp add: restore_up_def s_put_def raise_for_status_def Let_def)

lemma up_until_restore:
  assumes "checked_json (reply E (sent w)) = Inr resp1"
    and "task_id_of resp1 = Inr task_id"
    and "answers E (Suc (sent w)) (replicate k (JStr ''PENDING'') @ [JStr ''SUCCESS''])"
  shows "interface_shut_no_shut E interface_uuid (JStr ''UP'') mode w =
         Some (restore_up E (interface_url E interface_uuid mode)
           \<lparr>sent = sent w + k + 2,
            log = log w @ PUT (interface_url E interface_uuid mode) (admin ''DOWN'')
                          # polls E task_id k\<rparr>)"
proof -
  let ?url = "interface_url E interface_uuid mode"
  let ?w1 = "\<lparr>sent = Suc (sent w), log = log w @ [PUT ?url (admin ''DOWN'')]\<rparr>"
  from assms(3) have a: "answers E (sent ?w1) (replicate k (JStr ''PENDING'') @ [JStr ''SUCCESS''])"
    by simp
  from down_scenario [OF assms(2) a] have
    "await_task_up E resp1 ?w1 =
       Some (Inr (), \<lparr>sent = sent w + k + 2, log = log w @ PUT ?url (admin ''DOWN'') # polls E task_id k\<rparr>)"
    by (simp add: await_task_up_eq)
  with assms(1) show ?thesis
    by (simp add: interface_shut_no_shut_def put_checked_eq Let_def)
qed

lemma get_client_details_eq:
  "get_client_details E mac_address w =
     (bindE (checked_json (reply E (sent w))) client_of_json,
      \<lparr>sent = Suc (sent w),
       log = log w @ [GET (CCC_URL E @ ''/dna/intent/api/v1/client-detail?macAddress='' @ mac_address)]\<rparr>)"
  by (simp add: get_client_details_def s_get_def)

lemma get_interface_details_eq:
  "get_interface_details E parent_device_uuid interface_name w =
     (bindE (checked_json (reply E (sent w))) interface_of_json,
      \<lparr>sent = Suc (sent w),
       log = log w @ [GET (CCC_URL E @ ''/dna/intent/api/v1/interface/network-device/''
                            @ py_str E parent_device_uuid @ ''/interface-name?name=''
                            @ py_str E interface_name)]\<rparr>)"
  by (simp add: get_interface_details_def s_get_def)

lemma client_primary_found:
  assumes "map_of kvs ''detail'' = Some (JObj d)"
    and "map_of d ''connectedDevice'' = Some (JArr (JObj e # rest))"
    and "map_of e ''id'' = Some i"
  shows "client_primary (JObj kvs) = Inr i"
  using assms by (simp add: client_primary_def bindE_def)

lemma client_of_json_primary:
  assumes "map_of kvs ''detail'' = Some (JObj d)"
    and "map_of d ''port'' = Some port"
    and "map_of d ''connectedDevice'' = Some (JArr (JObj e # rest))"
    and "member e ''id'' = Some i"
  shows "client_of_json (JObj kvs) = Inr (port, i)"
proof -
  from assms(4) have i: "map_of e ''id'' = Some i" and t: "truthy i"
    by (auto simp: member_def split: option.splits if_splits)
  from client_primary_found [OF assms(1,3) i] assms(1,2) t show ?thesis
    by (simp add: client_of_json_def bindE_def)
qed

text \<open>What \<^verbatim>\<open>get_client_details\<close> does when the primary lookup finds no usable id: the
  fallback of lines 86 to 93 runs only when the first connected device has an \<^verbatim>\<open>id\<close> that
  is empty.\<close>

lemma client_absent_unbound:
  assumes "map_of kvs ''detail'' = Some (JObj d)"
    and "map_of d ''port'' = Some port"
    and "map_of d ''connectedDevice'' = None"
  shows "client_of_json (JObj kvs) = Inl UnboundLocalError"
  using assms by (simp add: client_of_json_def client_primary_def bindE_def)

lemma client_empty_index_error:
  assumes "map_of kvs ''detail'' = Some (JObj d)"
    and "map_of d ''port'' = Some port"
    and "map_of d ''connectedDevice'' = Some (JArr [])"
  shows "client_of_json (JObj kvs) = Inl IndexError"
  using assms by (simp add: client_of_json_def client_primary_def bindE_def)

lemma client_fallback_second_node:
  assumes "map_of kvs ''detail'' = Some (JObj d)"
    and "map_of d ''port'' = Some port"
    and "map_of d ''connectedDevice'' = Some (JArr (JObj e # rest))"
    and "map_of e ''id'' = Some i" and "\<not> truthy i"
    and "map_of kvs ''topology'' = Some (JObj t)"
    and "map_of t ''nodes'' = Some (JArr (n0 # JObj n1 # ns))"
  shows "client_of_json (JObj kvs) =
           Inr (port, case map_of n1 ''id'' of None \<Rightarrow> JObj [] | Some v \<Rightarrow> v)"
  using assms by (simp add: client_of_json_def client_primary_def client_fallback_def bindE_def)

lemma client_fallback_too_few:
  assumes "map_of kvs ''detail'' = Some (JObj d)"
    and "map_of d ''port'' = Some port"
    and "map_of d ''connectedDevice'' = Some (JArr (JObj e # rest))"
    and "map_of e ''id'' = Some i" and "\<not> truthy i"
    and "map_of kvs ''topology'' = Some (JObj t)"
    and "map_of t ''nodes'' = Some (JArr ns)" and "length ns \<le> 1"
  shows "client_of_json (JObj kvs) = Inl unable_parent"
  using assms by (simp add: client_of_json_def client_primary_def client_fallback_def bindE_def unable_parent_def)

lemma port_bounce_mode_ignored:
  "port_bounce E mac_address mode w = port_bounce E mac_address ''Deploy'' w"
  by (simp add: port_bounce_def)

section \<open>Facts about the concrete controllers\<close>

lemma task_id_of_accepted: "task_id_of accepted = Inr (JStr ''task-1'')"
  by (simp add: task_id_of_def accepted_def bindE_def)

lemma task_answer_status_reply: "task_answer (status_reply s) (JStr s)"
  by (simp add: task_answer_def status_reply_def json_reply_def checked_json_def
      raise_for_status_def r_json_def bindE_def task_status_def)

lemma reply_scripted: "reply (scripted rs) n = (if n < length rs then rs ! n else error_reply 503 [])"
  by (simp add: scripted_def)

lemma task_url_scripted:
  "task_url (scripted rs) (JStr t) = ''https://ccc.example/dna/intent/api/v1/tasks/'' @ t"
  by (simp add: task_url_def scripted_def py_str_def)

lemma interface_url_scripted:
  "interface_url (scripted rs) (JStr u) mode =
     ''https://ccc.example/dna/intent/api/v1/interface/'' @ u @ ''?deploymentMode='' @ mode"
  by (simp add: interface_url_def scripted_def py_str_def)

lemma checked_json_reply: "checked_json (json_reply (c # cs) j) = Inr j"
  by (simp add: checked_json_def json_reply_def raise_for_status_def r_json_def bindE_def)

lemma checked_accepted_reply: "checked_json accepted_reply = Inr accepted"
  by (simp add: accepted_reply_def checked_json_reply)

lemma no_change_in: "py_in ''No change in setting'' (r_text no_change_reply)"
  by code_simp

lemma refused_not_in: "\<not> py_in ''No change in setting'' (r_text refused_reply)"
  by code_simp

lemma raise_error_reply:
  "400 \<le> c \<Longrightarrow> c < 600 \<Longrightarrow> raise_for_status (error_reply c b) = Inl (HTTPError (error_reply c b))"
  by (simp add: raise_for_status_def error_reply_def)

lemma checked_client_with_device:
  "checked_json client_with_device =
     Inr (JObj [(''detail'', JObj [(''port'', JStr ''GigabitEthernet1/0/3''),
                                 (''connectedDevice'', JArr [JObj [(''id'', JStr ''dev-1'')]])]),
              (''topology'', JObj [(''nodes'', JArr [node ''client-1'', node ''switch-1''])])])"
  by (simp add: client_with_device_def checked_json_reply node_def)

section \<open>Resolving the client\<close>

text \<open>
  C5. When the client-detail answer has a \<^verbatim>\<open>connectedDevice\<close> list whose first entry is
  an object with a non-empty \<^verbatim>\<open>id\<close>, \<^verbatim>\<open>get_client_details\<close> returns the port and that
  \<^verbatim>\<open>id\<close> after its one GET. The topology does not matter: the answer's \<^verbatim>\<open>topology\<close>
  member is arbitrary, and putting any other value \<open>t\<close> in its place gives the same result.
\<close>

theorem client_primary_device:
  assumes "checked_json (reply E (sent w)) = Inr (JObj kvs)"
    and "map_of kvs ''detail'' = Some (JObj d)"
    and "map_of d ''port'' = Some port"
    and "map_of d ''connectedDevice'' = Some (JArr (JObj e # rest))"
    and "member e ''id'' = Some i"
  shows "get_client_details E mac_address w =
           (Inr (port, i),
            \<lparr>sent = Suc (sent w),
             log = log w @ [GET (CCC_URL E @ ''/dna/intent/api/v1/client-detail?macAddress=''
                                  @ mac_address)]\<rparr>)
       \<and> client_of_json (JObj ((''topology'', t) # kvs)) = Inr (port, i)"
proof -
  from assms(2) have "map_of ((''topology'', t) # kvs) ''detail'' = Some (JObj d)"
    by simp
  from client_of_json_primary [OF this assms(3,4,5)]
       client_of_json_primary [OF assms(2,3,4,5)] assms(1)
  show ?thesis by (simp add: get_client_details_eq bindE_def)
qed

theorem client_primary_device_witness:
  "get_client_details (scripted [client_with_device]) demo_mac w0 =
     (Inr (JStr ''GigabitEthernet1/0/3'', JStr ''dev-1''),
      \<lparr>sent = 1,
       log = [GET ''https://ccc.example/dna/intent/api/v1/client-detail?macAddress=00:A2:89:AA:AA:AA'']\<rparr>)"
proof -
  have 1: "checked_json (reply (scripted [client_with_device]) (sent w0)) =
     Inr (JObj [(''detail'', JObj [(''port'', JStr ''GigabitEthernet1/0/3''),
                                 (''connectedDevice'', JArr [JObj [(''id'', JStr ''dev-1'')]])]),
              (''topology'', JObj [(''nodes'', JArr [node ''client-1'', node ''switch-1''])])])"
    by (simp add: w0_def reply_scripted checked_client_with_device)
  have 5: "member [(''id'', JStr ''dev-1'')] ''id'' = Some (JStr ''dev-1'')"
    by (simp add: member_def)
  from client_primary_device [OF 1 _ _ _ 5, of _ "JStr ''GigabitEthernet1/0/3''" "[]" demo_mac]
  show ?thesis
    by (simp add: w0_def scripted_def demo_mac_def)
qed

text \<open>
  C3. The specification has \<^verbatim>\<open>get_client_details\<close> return the id of the second topology
  node when \<^verbatim>\<open>connectedDevice\<close> is absent or empty and there are two nodes. On such an
  answer the function raises instead. With \<^verbatim>\<open>connectedDevice\<close> absent, \<^verbatim>\<open>{}[0]\<close> raises
  the \<^verbatim>\<open>KeyError\<close> that line 84 swallows, \<^verbatim>\<open>parent_device_uuid\<close> stays unbound, and line
  86 raises \<^verbatim>\<open>UnboundLocalError\<close>. With \<^verbatim>\<open>connectedDevice\<close> an empty list, \<^verbatim>\<open>[][0]\<close>
  raises an \<^verbatim>\<open>IndexError\<close> that line 84 does not catch. Neither run returns the id
  \<^verbatim>\<open>switch-1\<close> of the second node.
\<close>

theorem fallback_not_reached:
  "get_client_details (scripted [client_no_device]) demo_mac w0 =
     (Inl UnboundLocalError,
      \<lparr>sent = 1,
       log = [GET ''https://ccc.example/dna/intent/api/v1/client-detail?macAddress=00:A2:89:AA:AA:AA'']\<rparr>)
   \<and> get_client_details (scripted [client_empty_device]) demo_mac w0 =
     (Inl IndexError,
      \<lparr>sent = 1,
       log = [GET ''https://ccc.example/dna/intent/api/v1/client-detail?macAddress=00:A2:89:AA:AA:AA'']\<rparr>)"
  by code_simp

text \<open>
  C6. The specification has \<^verbatim>\<open>get_client_details\<close> fail with "Unable to get parent
  device UUID from client details" when there is no \<^verbatim>\<open>connectedDevice\<close> entry and at most
  one topology node. On such an answer the function fails with the \<^verbatim>\<open>UnboundLocalError\<close>
  of line 86, before line 89 looks at the nodes, and not with that exception.
\<close>

theorem lone_client_unbound:
  "fst (get_client_details (scripted [client_alone]) demo_mac w0) = Inl UnboundLocalError
   \<and> fst (get_client_details (scripted [client_alone]) demo_mac w0) \<noteq> Inl unable_parent"
  by code_simp

section \<open>Resolving the interface\<close>

text \<open>
  C9. When the interface lookup answers with an object whose \<^verbatim>\<open>response\<close> member is an
  object (or is absent), \<^verbatim>\<open>get_interface_details\<close> returns the pair of \<^verbatim>\<open>id\<close> and
  \<^verbatim>\<open>adminStatus\<close> when both are there and not empty, and otherwise raises "Unable to
  locate interface details of either: UUID or status"; it never returns one without the
  other.
\<close>

theorem interface_details_both_or_fail:
  assumes "checked_json (reply E (sent w)) = Inr (JObj kvs)"
    and "map_of kvs ''response'' = Some (JObj ms) \<or> map_of kvs ''response'' = None \<and> ms = []"
  shows "get_interface_details E parent_device_uuid interface_name w =
           (case (member ms ''id'', member ms ''adminStatus'') of
              (Some i, Some a) \<Rightarrow> Inr (i, a)
            | _ \<Rightarrow> Inl unable_interface,
            \<lparr>sent = Suc (sent w),
             log = log w @ [GET (CCC_URL E @ ''/dna/intent/api/v1/interface/network-device/''
                                  @ py_str E parent_device_uuid @ ''/interface-name?name=''
                                  @ py_str E interface_name)]\<rparr>)"
proof -
  from assms(2) have "interface_of_json (JObj kvs) =
      (case (member ms ''id'', member ms ''adminStatus'') of
              (Some i, Some a) \<Rightarrow> Inr (i, a)
            | _ \<Rightarrow> Inl unable_interface)"
    by (auto simp: interface_of_json_def bindE_def member_def split: option.splits)
  with assms(1) show ?thesis
    by (simp add: get_interface_details_eq bindE_def)
qed

theorem interface_details_both_or_fail_witness:
  "get_interface_details (scripted [interface_reply ''UP''])
     (JStr ''dev-1'') (JStr ''GigabitEthernet1/0/3'') w0
   = (Inr (JStr ''if-1'', JStr ''UP''),
      \<lparr>sent = 1,
       log = [GET ''https://ccc.example/dna/intent/api/v1/interface/network-device/dev-1/interface-name?name=GigabitEthernet1/0/3'']\<rparr>)
   \<and> get_interface_details (scripted [interface_no_status])
     (JStr ''dev-1'') (JStr ''GigabitEthernet1/0/3'') w0
   = (Inl unable_interface,
      \<lparr>sent = 1,
       log = [GET ''https://ccc.example/dna/intent/api/v1/interface/network-device/dev-1/interface-name?name=GigabitEthernet1/0/3'']\<rparr>)"
proof -
  have a: "checked_json (reply (scripted [interface_reply ''UP'']) (sent w0)) =
      Inr (JObj [(''response'', JObj [(''id'', JStr ''if-1''), (''adminStatus'', JStr ''UP'')])])"
    and b: "checked_json (reply (scripted [interface_no_status]) (sent w0)) =
      Inr (JObj [(''response'', JObj [(''id'', JStr ''if-1'')])])"
    by (simp_all add: w0_def reply_scripted interface_reply_def interface_no_status_def checked_json_reply)
  from interface_details_both_or_fail [OF a, of "[(''id'', JStr ''if-1''), (''adminStatus'', JStr ''UP'')]"
         "JStr ''dev-1''" "JStr ''GigabitEthernet1/0/3''"]
       interface_details_both_or_fail [OF b, of "[(''id'', JStr ''if-1'')]"
         "JStr ''dev-1''" "JStr ''GigabitEthernet1/0/3''"]
  show ?thesis
    by (simp add: w0_def scripted_def member_def py_str_def)
qed

section \<open>Task polling\<close>

text \<open>
  C8. The poll loop of lines 170 to 178, started when the controller answers the task
  lookups with PENDING, PENDING, SUCCESS, looks the task up three times, sleeps one second
  after each of the first two lookups, and returns normally. Started when the controller
  answers \<open>k\<close> times PENDING and then a status that is neither PENDING nor SUCCESS, it
  raises "Interface update task failed" right after the lookup that saw that status: the
  log ends with that lookup, after \<open>k\<close> sleeps. The loop of the UP branch (lines 185 to
  193) is the same function.
\<close>

theorem poll_loop_statuses:
  assumes "task_id_of resp1 = Inr task_id"
  shows "(answers E (sent w) [JStr ''PENDING'', JStr ''PENDING'', JStr ''SUCCESS''] \<longrightarrow>
            await_task_down E resp1 w =
              Some (Inr (),
                    \<lparr>sent = sent w + 3,
                     log = log w @ [GET (task_url E task_id), SLEEP 1,
                                    GET (task_url E task_id), SLEEP 1,
                                    GET (task_url E task_id)]\<rparr>))
       \<and> (answers E (sent w) (replicate k (JStr ''PENDING'') @ [st])
            \<and> st \<noteq> JStr ''PENDING'' \<and> st \<noteq> JStr ''SUCCESS'' \<longrightarrow>
            await_task_down E resp1 w =
              Some (Inl task_failed, \<lparr>sent = sent w + k + 1, log = log w @ polls E task_id k\<rparr>))
       \<and> await_task_up E resp1 w = await_task_down E resp1 w"
proof (intro conjI impI)
  assume a: "answers E (sent w) [JStr ''PENDING'', JStr ''PENDING'', JStr ''SUCCESS'']"
  then have "answers E (sent w) (replicate 2 (JStr ''PENDING'') @ [JStr ''SUCCESS''])"
    by (simp add: numeral_2_eq_2)
  from down_scenario [OF assms this]
  show "await_task_down E resp1 w =
          Some (Inr (),
                \<lparr>sent = sent w + 3,
                 log = log w @ [GET (task_url E task_id), SLEEP 1,
                                GET (task_url E task_id), SLEEP 1,
                                GET (task_url E task_id)]\<rparr>)"
    by (simp add: polls_def numeral_2_eq_2)
next
  assume "answers E (sent w) (replicate k (JStr ''PENDING'') @ [st])
            \<and> st \<noteq> JStr ''PENDING'' \<and> st \<noteq> JStr ''SUCCESS''"
  then show "await_task_down E resp1 w =
      Some (Inl task_failed, \<lparr>sent = sent w + k + 1, log = log w @ polls E task_id k\<rparr>)"
    using down_scenario [OF assms, of E w k st] by simp
next
  show "await_task_up E resp1 w = await_task_down E resp1 w"
    by (rule await_task_up_eq)
qed

theorem poll_loop_statuses_witness:
  "task_id_of accepted = Inr (JStr ''task-1'')
   \<and> answers (scripted [status_reply ''PENDING'', status_reply ''PENDING'', status_reply ''SUCCESS''])
        (sent w0) [JStr ''PENDING'', JStr ''PENDING'', JStr ''SUCCESS'']
   \<and> await_task_down
        (scripted [status_reply ''PENDING'', status_reply ''PENDING'', status_reply ''SUCCESS''])
        accepted w0
      = Some (Inr (),
              \<lparr>sent = 3,
               log = [GET ''https://ccc.example/dna/intent/api/v1/tasks/task-1'', SLEEP 1,
                      GET ''https://ccc.example/dna/intent/api/v1/tasks/task-1'', SLEEP 1,
                      GET ''https://ccc.example/dna/intent/api/v1/tasks/task-1'']\<rparr>)
   \<and> answers (scripted [status_reply ''PENDING'', status_reply ''FAILURE''])
        (sent w0) (replicate 1 (JStr ''PENDING'') @ [JStr ''FAILURE''])
   \<and> JStr ''FAILURE'' \<noteq> JStr ''PENDING'' \<and> JStr ''FAILURE'' \<noteq> JStr ''SUCCESS''
   \<and> await_task_down (scripted [status_reply ''PENDING'', status_reply ''FAILURE'']) accepted w0
      = Some (Inl task_failed,
              \<lparr>sent = 2,
               log = [GET ''https://ccc.example/dna/intent/api/v1/tasks/task-1'', SLEEP 1,
                      GET ''https://ccc.example/dna/intent/api/v1/tasks/task-1'']\<rparr>)"
proof -
  let ?E1 = "scripted [status_reply ''PENDING'', status_reply ''PENDING'', status_reply ''SUCCESS'']"
  let ?E2 = "scripted [status_reply ''PENDING'', status_reply ''FAILURE'']"
  have a1: "answers ?E1 (sent w0) [JStr ''PENDING'', JStr ''PENDING'', JStr ''SUCCESS'']"
    by (simp add: w0_def reply_scripted task_answer_status_reply)
  have a2: "answers ?E2 (sent w0) (replicate 1 (JStr ''PENDING'') @ [JStr ''FAILURE''])"
    by (simp add: w0_def reply_scripted task_answer_status_reply)
  from poll_loop_statuses [OF task_id_of_accepted, of ?E1 w0 1 "JStr ''FAILURE''"] a1
       poll_loop_statuses [OF task_id_of_accepted, of ?E2 w0 1 "JStr ''FAILURE''"] a2
  show ?thesis
    by (simp add: task_id_of_accepted w0_def task_url_scripted polls_def)
qed

section \<open>The DOWN branch\<close>



section \<open>The UP branch\<close>



text \<open>
  C2. With observed status "UP", when the first PUT and its task succeed and
  \<^verbatim>\<open>raise_for_status\<close> raises an HTTP error for the answer to the second PUT,
  \<^verbatim>\<open>interface_shut_no_shut\<close> returns normally if the body of that answer contains
  "No change in setting", and otherwise raises that same HTTP error.
\<close>

theorem restore_no_change_tolerated:
  assumes "checked_json (reply E (sent w)) = Inr resp1"
    and "task_id_of resp1 = Inr task_id"
    and "answers E (Suc (sent w)) (replicate k (JStr ''PENDING'') @ [JStr ''SUCCESS''])"
    and "raise_for_status (reply E (sent w + k + 2)) = Inl (HTTPError r2)"
  shows "interface_shut_no_shut E interface_uuid (JStr ''UP'') mode w =
           Some (if py_in ''No change in setting'' (r_text r2) then Inr () else Inl (HTTPError r2),
             \<lparr>sent = sent w + k + 3,
              log = log w @ PUT (interface_url E interface_uuid mode) (admin ''DOWN'')
                            # polls E task_id k
                            @ [PUT (interface_url E interface_uuid mode) (admin ''UP'')]\<rparr>)"
proof -
  from assms(4) have "400 \<le> status_code (reply E (sent w + k + 2))
                         \<and> status_code (reply E (sent w + k + 2)) < 600"
    and "r2 = reply E (sent w + k + 2)"
    by (auto simp: raise_for_status_def split: if_splits)
  with up_until_restore [OF assms(1,2,3), of interface_uuid mode]
  show ?thesis
    by (simp add: restore_up_eq Let_def)
qed

theorem restore_no_change_tolerated_witness:
  "interface_shut_no_shut (scripted [accepted_reply, status_reply ''SUCCESS'', no_change_reply])
     (JStr ''if-1'') (JStr ''UP'') ''Deploy'' w0
   = Some (Inr (),
      \<lparr>sent = 3,
       log = [PUT ''https://ccc.example/dna/intent/api/v1/interface/if-1?deploymentMode=Deploy''
                (admin ''DOWN''),
              GET ''https://ccc.example/dna/intent/api/v1/tasks/task-1'',
              PUT ''https://ccc.example/dna/intent/api/v1/interface/if-1?deploymentMode=Deploy''
                (admin ''UP'')]\<rparr>)
   \<and> interface_shut_no_shut (scripted [accepted_reply, status_reply ''SUCCESS'', refused_reply])
     (JStr ''if-1'') (JStr ''UP'') ''Deploy'' w0
   = Some (Inl (HTTPError refused_reply),
      \<lparr>sent = 3,
       log = [PUT ''https://ccc.example/dna/intent/api/v1/interface/if-1?deploymentMode=Deploy''
                (admin ''DOWN''),
              GET ''https://ccc.example/dna/intent/api/v1/tasks/task-1'',
              PUT ''https://ccc.example/dna/intent/api/v1/interface/if-1?deploymentMode=Deploy''
                (admin ''UP'')]\<rparr>)"
proof -
  let ?A = "scripted [accepted_reply, status_reply ''SUCCESS'', no_change_reply]"
  let ?B = "scripted [accepted_reply, status_reply ''SUCCESS'', refused_reply]"
  have a1: "checked_json (reply ?A (sent w0)) = Inr accepted"
    and b1: "checked_json (reply ?B (sent w0)) = Inr accepted"
    by (simp_all add: w0_def reply_scripted checked_accepted_reply)
  have a3: "answers ?A (Suc (sent w0)) (replicate 0 (JStr ''PENDING'') @ [JStr ''SUCCESS''])"
    and b3: "answers ?B (Suc (sent w0)) (replicate 0 (JStr ''PENDING'') @ [JStr ''SUCCESS''])"
    by (simp_all add: w0_def reply_scripted task_answer_status_reply)
  have a4: "raise_for_status (reply ?A (sent w0 + 0 + 2)) = Inl (HTTPError no_change_reply)"
    and b4: "raise_for_status (reply ?B (sent w0 + 0 + 2)) = Inl (HTTPError refused_reply)"
    by (simp_all add: w0_def reply_scripted no_change_reply_def refused_reply_def raise_error_reply)
  from restore_no_change_tolerated [OF a1 task_id_of_accepted a3 a4, of "JStr ''if-1''" "''Deploy''"]
       restore_no_change_tolerated [OF b1 task_id_of_accepted b3 b4, of "JStr ''if-1''" "''Deploy''"]
  show ?thesis
    by (simp add: w0_def interface_url_scripted task_url_scripted polls_def
        no_change_in refused_not_in)
qed

section \<open>Unknown administrative status\<close>

text \<open>
  C10. When the observed administrative status is neither the string "UP" nor the string
  "DOWN", \<^verbatim>\<open>interface_shut_no_shut\<close> returns normally and leaves the world as it
  found it: no request is sent, no task is polled, nothing is slept.
\<close>

theorem unknown_status_noop:
  assumes "current_interface_status \<noteq> JStr ''DOWN''"
    and "current_interface_status \<noteq> JStr ''UP''"
  shows "interface_shut_no_shut E interface_uuid current_interface_status mode w = Some (Inr (), w)"
  using assms by (simp add: interface_shut_no_shut_def)

theorem unknown_status_noop_witness:
  "JStr ''TESTING'' \<noteq> JStr ''DOWN'' \<and> JStr ''TESTING'' \<noteq> JStr ''UP''
   \<and> interface_shut_no_shut (scripted []) (JStr ''if-1'') (JStr ''TESTING'') ''Deploy'' w0
       = Some (Inr (), w0)"
  using unknown_status_noop [of "JStr ''TESTING''" "scripted []" "JStr ''if-1''" "''Deploy''" w0]
  by simp

section \<open>The mode of a bounce\<close>

text \<open>
  C4. The specification has the PUT requests of \<^verbatim>\<open>port_bounce\<close> carry its \<^verbatim>\<open>mode\<close>
  argument as \<^verbatim>\<open>deploymentMode\<close>. Lines 221 to 224 call \<^verbatim>\<open>interface_shut_no_shut\<close>
  without \<^verbatim>\<open>mode\<close>: a bounce asked for with mode "Preview", on an interface that is
  DOWN, sends its one PUT with \<^verbatim>\<open>deploymentMode=Deploy\<close>.
\<close>

theorem port_bounce_drops_mode:
  "port_bounce
     (scripted [client_with_device, interface_reply ''DOWN'', accepted_reply, status_reply ''SUCCESS''])
     demo_mac ''Preview'' w0
   = Some (Inr (),
      \<lparr>sent = 4,
       log = [GET ''https://ccc.example/dna/intent/api/v1/client-detail?macAddress=00:A2:89:AA:AA:AA'',
              GET ''https://ccc.example/dna/intent/api/v1/interface/network-device/dev-1/interface-name?name=GigabitEthernet1/0/3'',
              PUT ''https://ccc.example/dna/intent/api/v1/interface/if-1?deploymentMode=Deploy''
                (JObj [(''adminStatus'', JStr ''UP'')]),
              GET ''https://ccc.example/dna/intent/api/v1/tasks/task-1'']\<rparr>)"
  by code_simp

end
